theory Spec2Isabelle
  imports Complex_Main
begin

section \<open>Python values, exceptions and the functions taken from outside the repository\<close>

text \<open>
  The program is \<^verbatim>\<open>src/main.py\<close>. Every value it handles comes out of a JSON payload, so one
  datatype stands for the Python objects: \<open>JNull\<close> is \<^verbatim>\<open>None\<close>, \<open>JObj\<close> a \<^verbatim>\<open>dict\<close> (an association
  list with distinct keys, looked up with \<open>map_of\<close>), \<open>JArr\<close> a \<^verbatim>\<open>list\<close>.

  Two idealisations are used throughout and are not repeated at every definition.
  \<^item> A Python \<^verbatim>\<open>float\<close> is an exact rational: the binary rounding of each division, the
    range of a double (\<^verbatim>\<open>float\<close> of a larger integer raises \<^verbatim>\<open>OverflowError\<close>) and the
    non-finite values are not modelled. A NaN cell of a pandas column is \<open>None\<close>.
  \<^item> A string is a list of 8-bit characters holding the UTF-8 encoding. Case mapping and white
    space follow Python on the ASCII range; bytes above 127 are never white space and are left
    unchanged by \<open>upper\<close> and \<open>lower\<close>.
\<close>

datatype error =
    HTTPError nat
  | ConnectionError
  | JSONDecodeError
  | KeyError string
  | IndexError
  | TypeError
  | AttributeError
  | ValueError
  | ZeroDivisionError

datatype json =
    JNull
  | JBool bool
  | JInt int
  | JFloat rat
  | JStr string
  | JArr "json list"
  | JObj "(string \<times> json) list"

type_synonym series = "rat option list"

text \<open>
  The interpreter and the libraries (\<^verbatim>\<open>pandas_ta\<close>, \<^verbatim>\<open>sparklines\<close>) are not part of the
  repository. What the program asks of them is a parameter of the model:
  \<^item> \<open>float_repr\<close>: \<^verbatim>\<open>repr\<close> of a float; \<open>container_repr\<close>: \<^verbatim>\<open>str\<close> of a list or dict;
  \<^item> \<open>float_of_str\<close>: \<^verbatim>\<open>float(s)\<close> of a string, \<open>None\<close> where it raises \<^verbatim>\<open>ValueError\<close>;
  \<^item> \<open>exc_str\<close>: \<^verbatim>\<open>str(exc)\<close> of a caught exception;
  \<^item> \<open>ta_sma\<close>, \<open>ta_ema\<close>, \<open>ta_rsi\<close>: a column and a length to a column;
    \<open>ta_macd\<close>, \<open>ta_bbands\<close>: a column to named columns;
  \<^item> \<open>spark_glyph\<close>: the block glyph \<^verbatim>\<open>sparklines\<close> draws for one value of the list it is given
    (the list fixes the scale).
\<close>

record runtime =
  float_repr :: "rat \<Rightarrow> string"
  container_repr :: "json \<Rightarrow> string"
  float_of_str :: "string \<Rightarrow> rat option"
  exc_str :: "error \<Rightarrow> string"
  ta_sma :: "series \<Rightarrow> nat \<Rightarrow> series"
  ta_ema :: "series \<Rightarrow> nat \<Rightarrow> series"
  ta_rsi :: "series \<Rightarrow> nat \<Rightarrow> series"
  ta_macd :: "series \<Rightarrow> (string \<times> series) list"
  ta_bbands :: "series \<Rightarrow> (string \<times> series) list"
  spark_glyph :: "series \<Rightarrow> rat option \<Rightarrow> string"

definition bind_result :: "error + 'a \<Rightarrow> ('a \<Rightarrow> error + 'b) \<Rightarrow> error + 'b" where
  "bind_result m f = (case m of Inl e \<Rightarrow> Inl e | Inr x \<Rightarrow> f x)"

text \<open>\<^verbatim>\<open>x[k]\<close> with a string key, \<^verbatim>\<open>x.get(k, d)\<close>, \<^verbatim>\<open>x[0]\<close> and the truth value of an object.\<close>

fun subscript :: "json \<Rightarrow> string \<Rightarrow> error + json" where
  "subscript (JObj kvs) k = (case map_of kvs k of None \<Rightarrow> Inl (KeyError k) | Some v \<Rightarrow> Inr v)"
| "subscript _ k = Inl TypeError"

fun dict_get :: "json \<Rightarrow> string \<Rightarrow> json \<Rightarrow> error + json" where
  "dict_get (JObj kvs) k d = (case map_of kvs k of None \<Rightarrow> Inr d | Some v \<Rightarrow> Inr v)"
| "dict_get _ k d = Inl AttributeError"

fun first_item :: "json \<Rightarrow> error + json" where
  "first_item (JArr xs) = (case xs of [] \<Rightarrow> Inl IndexError | x # _ \<Rightarrow> Inr x)"
| "first_item (JStr s) = (case s of [] \<Rightarrow> Inl IndexError | c # _ \<Rightarrow> Inr (JStr [c]))"
| "first_item (JObj kvs) = Inl (KeyError ''0'')"
| "first_item _ = Inl TypeError"

fun truthy :: "json \<Rightarrow> bool" where
  "truthy JNull = False"
| "truthy (JBool b) = b"
| "truthy (JInt i) = (i \<noteq> 0)"
| "truthy (JFloat r) = (r \<noteq> 0)"
| "truthy (JStr s) = (s \<noteq> [])"
| "truthy (JArr xs) = (xs \<noteq> [])"
| "truthy (JObj kvs) = (kvs \<noteq> [])"

section \<open>Strings\<close>

definition lower_char :: "char \<Rightarrow> char" where
  "lower_char c =
     (case map_of (zip ''ABCDEFGHIJKLMNOPQRSTUVWXYZ'' ''abcdefghijklmnopqrstuvwxyz'') c of
        None \<Rightarrow> c | Some d \<Rightarrow> d)"

definition upper_char :: "char \<Rightarrow> char" where
  "upper_char c =
     (case map_of (zip ''abcdefghijklmnopqrstuvwxyz'' ''ABCDEFGHIJKLMNOPQRSTUVWXYZ'') c of
        None \<Rightarrow> c | Some d \<Rightarrow> d)"

definition lower :: "string \<Rightarrow> string" where
  "lower s = map lower_char s"

definition upper :: "string \<Rightarrow> string" where
  "upper s = map upper_char s"

text \<open>\<^verbatim>\<open>x.lower()\<close>, \<^verbatim>\<open>x.upper()\<close> and \<^verbatim>\<open>x.strip()\<close> exist on strings only.\<close>

fun method_lower :: "json \<Rightarrow> error + string" where
  "method_lower (JStr s) = Inr (lower s)"
| "method_lower _ = Inl AttributeError"

fun method_upper :: "json \<Rightarrow> error + string" where
  "method_upper (JStr s) = Inr (upper s)"
| "method_upper _ = Inl AttributeError"

definition is_space :: "char \<Rightarrow> bool" where
  "is_space c =
     (c \<in> set [CHR 0x09, CHR 0x0A, CHR 0x0B, CHR 0x0C, CHR 0x0D,
               CHR 0x1C, CHR 0x1D, CHR 0x1E, CHR 0x1F, CHR 0x20])"

definition strip :: "string \<Rightarrow> string" where
  "strip s = rev (dropWhile is_space (rev (dropWhile is_space s)))"

fun method_strip :: "json \<Rightarrow> error + string" where
  "method_strip (JStr s) = Inr (strip s)"
| "method_strip _ = Inl AttributeError"

text \<open>\<^verbatim>\<open>s.split()\<close>: the maximal runs of characters that are not white space, in order.
  The first argument is the token being read.\<close>

fun split_from :: "string \<Rightarrow> string \<Rightarrow> string list" where
  "split_from cur [] = (if cur = [] then [] else [cur])"
| "split_from cur (c # cs) =
     (if is_space c then (if cur = [] then split_from [] cs else cur # split_from [] cs)
      else split_from (cur @ [c]) cs)"

definition split :: "string \<Rightarrow> string list" where
  "split s = split_from [] s"

section \<open>Number formatting\<close>

function dec_digits :: "nat \<Rightarrow> string" where
  "dec_digits n =
     (if n < 10 then [''0123456789'' ! n]
      else dec_digits (n div 10) @ [''0123456789'' ! (n mod 10)])"
  by pat_completeness auto
termination
  by (relation "measure id") auto

declare dec_digits.simps [simp del]

definition int_str :: "int \<Rightarrow> string" where
  "int_str i = (if i < 0 then ''-'' else []) @ dec_digits (nat \<bar>i\<bar>)"

text \<open>Rounding to the nearest integer, a tie to the even neighbour: what \<^verbatim>\<open>.2f\<close> does with
  the digits it drops.\<close>

definition round_half_even :: "rat \<Rightarrow> int" where
  "round_half_even x =
     (let f = \<lfloor>x\<rfloor>; d = x - of_int f
      in if d < 1 / 2 then f else if 1 / 2 < d then f + 1 else if even f then f else f + 1)"

text \<open>\<^verbatim>\<open>f"{x:.2f}"\<close> of a finite float: sign, integer digits, a point and two digits.\<close>

definition fmt_2f :: "rat \<Rightarrow> string" where
  "fmt_2f x =
     (let h = nat (round_half_even (\<bar>x\<bar> * 100))
      in (if x < 0 then ''-'' else []) @ dec_digits (h div 100) @ ''.''
         @ [''0123456789'' ! ((h div 10) mod 10), ''0123456789'' ! (h mod 10)])"

text \<open>The same on a cell of a pandas row, where NaN prints as \<^verbatim>\<open>nan\<close>.\<close>

definition fmt_2f_cell :: "rat option \<Rightarrow> string" where
  "fmt_2f_cell c = (case c of None \<Rightarrow> ''nan'' | Some x \<Rightarrow> fmt_2f x)"

text \<open>\<^verbatim>\<open>float(num)\<close>.\<close>

fun py_float :: "runtime \<Rightarrow> json \<Rightarrow> error + rat" where
  "py_float rt (JInt i) = Inr (of_int i)"
| "py_float rt (JFloat r) = Inr r"
| "py_float rt (JBool b) = Inr (if b then 1 else 0)"
| "py_float rt (JStr s) = (case float_of_str rt s of None \<Rightarrow> Inl ValueError | Some r \<Rightarrow> Inr r)"
| "py_float rt _ = Inl TypeError"

subsection \<open>\<^verbatim>\<open>human_format\<close> (lines 22 to 29)\<close>

text \<open>The \<^verbatim>\<open>while\<close> loop of lines 26 to 28, on the pair of its two variables.\<close>

function human_scale :: "nat \<Rightarrow> rat \<Rightarrow> nat \<times> rat" where
  "human_scale magnitude num =
     (if 1000 \<le> \<bar>num\<bar> then human_scale (magnitude + 1) (num / 1000) else (magnitude, num))"
  by pat_completeness auto
termination
proof (relation "measure (\<lambda>(m, n). nat \<lfloor>\<bar>n\<bar>\<rfloor>)")
  show "wf (measure (\<lambda>(m, n::rat). nat \<lfloor>\<bar>n\<bar>\<rfloor>))" by simp
next
  fix magnitude :: nat and num :: rat
  assume big: "1000 \<le> \<bar>num\<bar>"
  have below: "\<bar>num\<bar> / 1000 < of_int \<lfloor>\<bar>num\<bar>\<rfloor>"
  proof -
    have "\<bar>num\<bar> - 1 < of_int \<lfloor>\<bar>num\<bar>\<rfloor>" by linarith
    moreover have "\<bar>num\<bar> / 1000 \<le> \<bar>num\<bar> - 1" using big by simp
    ultimately show ?thesis by linarith
  qed
  have "\<lfloor>\<bar>num\<bar> / 1000\<rfloor> < \<lfloor>\<bar>num\<bar>\<rfloor>"
    using below by (simp add: floor_less_iff)
  moreover have "0 < \<lfloor>\<bar>num\<bar>\<rfloor>" using big by (simp add: less_floor_iff)
  ultimately show "((magnitude + 1, num / 1000), (magnitude, num))
      \<in> measure (\<lambda>(m, n). nat \<lfloor>\<bar>n\<bar>\<rfloor>)"
    by simp
qed

declare human_scale.simps [simp del]

definition suffixes :: "string list" where
  "suffixes = ['''', ''K'', ''M'', ''B'', ''T'']"

definition human_format :: "runtime \<Rightarrow> json \<Rightarrow> error + string" where
  "human_format rt v =
     bind_result (py_float rt v) (\<lambda>x.
       case human_scale 0 x of
         (magnitude, num) \<Rightarrow>
           if magnitude < length suffixes then Inr (fmt_2f num @ suffixes ! magnitude)
           else Inl IndexError)"

text \<open>\<^verbatim>\<open>str(x)\<close> as an f-string field without a format uses it.\<close>

fun py_str :: "runtime \<Rightarrow> json \<Rightarrow> string" where
  "py_str rt JNull = ''None''"
| "py_str rt (JBool b) = (if b then ''True'' else ''False'')"
| "py_str rt (JInt i) = int_str i"
| "py_str rt (JFloat r) = float_repr rt r"
| "py_str rt (JStr s) = s"
| "py_str rt v = container_repr rt v"

text \<open>\<^verbatim>\<open>f"{x:,}"\<close>: the digits Python prints for the number, with a comma between each
  group of three digits of the integer part. A string refuses the format with
  \<^verbatim>\<open>ValueError\<close>, \<^verbatim>\<open>None\<close> and the containers with \<^verbatim>\<open>TypeError\<close>.\<close>

fun group3 :: "string \<Rightarrow> string" where
  "group3 (a # b # c # d # ds) = a # b # c # CHR '','' # group3 (d # ds)"
| "group3 ds = ds"

definition is_digit :: "char \<Rightarrow> bool" where
  "is_digit c = (c \<in> set ''0123456789'')"

definition comma_number :: "string \<Rightarrow> string" where
  "comma_number s =
     (let sign = takeWhile (\<lambda>c. c = CHR ''-'') s;
          body = dropWhile (\<lambda>c. c = CHR ''-'') s
      in sign @ rev (group3 (rev (takeWhile is_digit body))) @ dropWhile is_digit body)"

fun fmt_comma :: "runtime \<Rightarrow> json \<Rightarrow> error + string" where
  "fmt_comma rt (JInt i) = Inr (comma_number (int_str i))"
| "fmt_comma rt (JFloat r) = Inr (comma_number (float_repr rt r))"
| "fmt_comma rt (JBool b) = Inr (if b then ''1'' else ''0'')"
| "fmt_comma rt (JStr s) = Inl ValueError"
| "fmt_comma rt _ = Inl TypeError"


section \<open>The providers and the state of the process\<close>

text \<open>
  A request names the URL the program asks for. The world answers each request: the call
  raises (no connection, or the time limit of the sentiment call), or a response comes back
  with its status and its body, \<open>None\<close> when the body is not JSON. The state of the process is
  the value \<^verbatim>\<open>lru_cache\<close> keeps for \<^verbatim>\<open>get_coin_list\<close> and, for the claims about what is
  fetched, the requests made so far.
\<close>

datatype request =
    CoinList
  | CoinOverview json
  | MarketChart json nat
  | FearGreed

datatype http_result = Raised error | Response nat "json option"

type_synonym world = "request \<Rightarrow> http_result"

record state =
  coin_list_cache :: "json option"
  requests_made :: "request list"

definition raise_for_status :: "nat \<Rightarrow> error + unit" where
  "raise_for_status status = (if 400 \<le> status \<and> status < 600 then Inl (HTTPError status) else Inr ())"

definition response_json :: "json option \<Rightarrow> error + json" where
  "response_json body = (case body of None \<Rightarrow> Inl JSONDecodeError | Some v \<Rightarrow> Inr v)"

definition sent :: "request \<Rightarrow> state \<Rightarrow> state" where
  "sent r s = s\<lparr>requests_made := requests_made s @ [r]\<rparr>"

subsection \<open>\<^verbatim>\<open>get_coin_list\<close> and \<^verbatim>\<open>symbol_to_id\<close> (lines 32 to 44)\<close>

definition get_coin_list :: "world \<Rightarrow> state \<Rightarrow> (error + json) \<times> state" where
  "get_coin_list w s =
     (case coin_list_cache s of
        Some coins \<Rightarrow> (Inr coins, s)
      | None \<Rightarrow>
          (case w CoinList of
             Raised e \<Rightarrow> (Inl e, sent CoinList s)
           | Response status body \<Rightarrow>
               (case bind_result (raise_for_status status) (\<lambda>u. response_json body) of
                  Inl e \<Rightarrow> (Inl e, sent CoinList s)
                | Inr coins \<Rightarrow> (Inr coins, (sent CoinList s)\<lparr>coin_list_cache := Some coins\<rparr>))))"

text \<open>What a \<^verbatim>\<open>for\<close> loop walks over: the items of a list, the keys of a dict, the
  characters of a string.\<close>

fun iter_items :: "json \<Rightarrow> error + json list" where
  "iter_items (JArr xs) = Inr xs"
| "iter_items (JObj kvs) = Inr (map (\<lambda>kv. JStr (fst kv)) kvs)"
| "iter_items (JStr s) = Inr (map (\<lambda>c. JStr [c]) s)"
| "iter_items _ = Inl TypeError"

text \<open>The loop of lines 41 to 44; its first argument is the lowered symbol of line 40.
  \<^verbatim>\<open>None\<close> is \<open>JNull\<close>.\<close>

fun find_coin :: "string \<Rightarrow> json list \<Rightarrow> error + json" where
  "find_coin symbol [] = Inr JNull"
| "find_coin symbol (coin # coins) =
     bind_result (subscript coin ''symbol'') (\<lambda>sym.
     bind_result (method_lower sym) (\<lambda>l.
       if l = symbol then subscript coin ''id'' else find_coin symbol coins))"

definition symbol_to_id :: "world \<Rightarrow> string \<Rightarrow> state \<Rightarrow> (error + json) \<times> state" where
  "symbol_to_id w symbol s =
     (case get_coin_list w s of
        (Inl e, s1) \<Rightarrow> (Inl e, s1)
      | (Inr coins, s1) \<Rightarrow> (bind_result (iter_items coins) (find_coin (lower symbol)), s1))"

subsection \<open>\<^verbatim>\<open>fetch_market_overview\<close> (lines 47 to 72)\<close>

record overview =
  ov_name :: json
  ov_symbol :: string
  ov_current_price :: json
  ov_market_cap :: json
  ov_volume_24h :: json
  ov_circulating_supply :: json
  ov_total_supply :: json
  ov_description :: json

text \<open>\<^verbatim>\<open>x[:400]\<close>.\<close>

fun slice_400 :: "json \<Rightarrow> error + json" where
  "slice_400 (JStr s) = Inr (JStr (take 400 s))"
| "slice_400 (JArr xs) = Inr (JArr (take 400 xs))"
| "slice_400 _ = Inl TypeError"

text \<open>Lines 61 to 71, from the decoded payload, in the order Python evaluates them.\<close>

definition overview_of :: "json \<Rightarrow> error + overview" where
  "overview_of data =
     bind_result (subscript data ''market_data'') (\<lambda>md.
     bind_result (dict_get data ''name'' JNull) (\<lambda>name.
     bind_result (dict_get data ''symbol'' JNull) (\<lambda>sym.
     bind_result (method_upper sym) (\<lambda>symbol.
     bind_result (subscript md ''current_price'') (\<lambda>cp.
     bind_result (subscript cp ''usd'') (\<lambda>current_price.
     bind_result (subscript md ''market_cap'') (\<lambda>mc.
     bind_result (subscript mc ''usd'') (\<lambda>market_cap.
     bind_result (subscript md ''total_volume'') (\<lambda>tv.
     bind_result (subscript tv ''usd'') (\<lambda>volume_24h.
     bind_result (dict_get md ''circulating_supply'' JNull) (\<lambda>circulating_supply.
     bind_result (dict_get md ''total_supply'' JNull) (\<lambda>total_supply.
     bind_result (dict_get data ''description'' (JObj [])) (\<lambda>d.
     bind_result (dict_get d ''en'' (JStr [])) (\<lambda>en.
     bind_result (slice_400 en) (\<lambda>description.
       Inr \<lparr> ov_name = name, ov_symbol = symbol, ov_current_price = current_price,
             ov_market_cap = market_cap, ov_volume_24h = volume_24h,
             ov_circulating_supply = circulating_supply, ov_total_supply = total_supply,
             ov_description = description \<rparr>)))))))))))))))"

definition fetch_market_overview :: "world \<Rightarrow> json \<Rightarrow> state \<Rightarrow> (error + overview) \<times> state" where
  "fetch_market_overview w coin_id s =
     (case w (CoinOverview coin_id) of
        Raised e \<Rightarrow> (Inl e, sent (CoinOverview coin_id) s)
      | Response status body \<Rightarrow>
          (bind_result (raise_for_status status) (\<lambda>u.
           bind_result (response_json body) overview_of),
           sent (CoinOverview coin_id) s))"

subsection \<open>\<^verbatim>\<open>fetch_ohlc\<close> (lines 75 to 85)\<close>

text \<open>
  A data frame is its columns by name, in order; every column runs over the same rows. The
  pandas constructor is outside the repository: the model takes the payload the provider
  documents, a list of rows of two numbers (\<^verbatim>\<open>null\<close> for a missing price, which pandas
  keeps as NaN), and raises \<^verbatim>\<open>ValueError\<close> on any other shape. The time stamps only index
  the rows, so the frame returned by line 85 is the one column \<^verbatim>\<open>close\<close>.
\<close>

type_synonym frame = "(string \<times> series) list"

fun price_cell :: "json \<Rightarrow> error + rat option" where
  "price_cell (JInt i) = Inr (Some (of_int i))"
| "price_cell (JFloat r) = Inr (Some r)"
| "price_cell JNull = Inr None"
| "price_cell _ = Inl ValueError"

fun price_row :: "json \<Rightarrow> error + rat option" where
  "price_row (JArr [ts, close]) = bind_result (price_cell ts) (\<lambda>t. price_cell close)"
| "price_row _ = Inl ValueError"

fun price_rows :: "json list \<Rightarrow> error + series" where
  "price_rows [] = Inr []"
| "price_rows (r # rs) =
     bind_result (price_row r) (\<lambda>c. bind_result (price_rows rs) (\<lambda>cs. Inr (c # cs)))"

fun data_frame :: "json \<Rightarrow> error + frame" where
  "data_frame (JArr rows) = bind_result (price_rows rows) (\<lambda>cs. Inr [(''close'', cs)])"
| "data_frame _ = Inl ValueError"

definition fetch_ohlc :: "world \<Rightarrow> json \<Rightarrow> nat \<Rightarrow> state \<Rightarrow> (error + frame) \<times> state" where
  "fetch_ohlc w coin_id days s =
     (case w (MarketChart coin_id days) of
        Raised e \<Rightarrow> (Inl e, sent (MarketChart coin_id days) s)
      | Response status body \<Rightarrow>
          (bind_result (raise_for_status status) (\<lambda>u.
           bind_result (response_json body) (\<lambda>data.
           bind_result (subscript data ''prices'') data_frame)),
           sent (MarketChart coin_id days) s))"

subsection \<open>\<^verbatim>\<open>compute_technicals\<close> (lines 88 to 101)\<close>

text \<open>\<^verbatim>\<open>df[c]\<close>, and a column put on the rows of the frame: pandas aligns it on the index,
  a row the library gave no value is NaN.\<close>

definition column :: "frame \<Rightarrow> string \<Rightarrow> error + series" where
  "column df c = (case map_of df c of None \<Rightarrow> Inl (KeyError c) | Some col \<Rightarrow> Inr col)"

definition align :: "nat \<Rightarrow> series \<Rightarrow> series" where
  "align n col = take n (col @ replicate n None)"

definition compute_technicals :: "runtime \<Rightarrow> frame \<Rightarrow> error + frame" where
  "compute_technicals rt df =
     bind_result (column df ''close'') (\<lambda>close.
       Inr (df
         @ [(''SMA20'', align (length close) (ta_sma rt close 20)),
            (''SMA50'', align (length close) (ta_sma rt close 50)),
            (''SMA200'', align (length close) (ta_sma rt close 200)),
            (''EMA20'', align (length close) (ta_ema rt close 20)),
            (''EMA50'', align (length close) (ta_ema rt close 50)),
            (''EMA200'', align (length close) (ta_ema rt close 200)),
            (''RSI'', align (length close) (ta_rsi rt close 14))]
         @ map (\<lambda>(c, col). (c, align (length close) col)) (ta_macd rt close)
         @ map (\<lambda>(c, col). (c, align (length close) col)) (ta_bbands rt close)))"

subsection \<open>\<^verbatim>\<open>build_ascii_chart\<close> (lines 104 to 110)\<close>

text \<open>\<^verbatim>\<open>xs[::k]\<close> for a positive \<open>k\<close>: the items at the indices 0, k, 2k and so on.\<close>

fun stride :: "nat \<Rightarrow> 'a list \<Rightarrow> 'a list" where
  "stride k [] = []"
| "stride k (x # xs) = x # stride k (drop (k - 1) xs)"

text \<open>\<^verbatim>\<open>xs[::step]\<close> for a step that is not zero; a negative step walks from the end.\<close>

definition slice_step :: "'a list \<Rightarrow> int \<Rightarrow> 'a list" where
  "slice_step xs step = (if 0 < step then stride (nat step) xs else stride (nat (- step)) (rev xs))"

text \<open>\<^verbatim>\<open>sparklines(xs)\<close> is a list of lines, one line here, of one glyph for each value;
  the chart is kept as its list of glyphs.\<close>

definition sparklines :: "runtime \<Rightarrow> series \<Rightarrow> string list list" where
  "sparklines rt xs = [map (spark_glyph rt xs) xs]"

definition build_ascii_chart :: "runtime \<Rightarrow> series \<Rightarrow> int \<Rightarrow> error + string list" where
  "build_ascii_chart rt series width =
     (if int (length series) < width then Inr (hd (sparklines rt series))
      else if width = 0 then Inl ZeroDivisionError
      else
        (let step = int (length series) div width
         in if step = 0 then Inl ValueError
            else Inr (hd (sparklines rt (slice_step series step)))))"

subsection \<open>\<^verbatim>\<open>analyze_asset\<close> (lines 113 to 185)\<close>

text \<open>\<^verbatim>\<open>df_ta.iloc[-1]\<close> and \<^verbatim>\<open>latest[c]\<close>.\<close>

definition iloc_last :: "frame \<Rightarrow> error + (string \<times> rat option) list" where
  "iloc_last df =
     (if df = [] \<or> snd (hd df) = [] then Inl IndexError
      else Inr (map (\<lambda>(c, col). (c, if col = [] then None else last col)) df))"

definition cell :: "(string \<times> rat option) list \<Rightarrow> string \<Rightarrow> error + rat option" where
  "cell row c = (case map_of row c of None \<Rightarrow> Inl (KeyError c) | Some v \<Rightarrow> Inr v)"

text \<open>\<^verbatim>\<open>.tail(30)\<close>, and \<^verbatim>\<open>.min()\<close> and \<^verbatim>\<open>.max()\<close>, which skip NaN and are NaN when nothing
  is left.\<close>

definition tail :: "nat \<Rightarrow> 'a list \<Rightarrow> 'a list" where
  "tail n xs = drop (length xs - n) xs"

definition series_min :: "series \<Rightarrow> rat option" where
  "series_min xs =
     (case List.map_filter id xs of [] \<Rightarrow> None | v # vs \<Rightarrow> Some (fold min vs v))"

definition series_max :: "series \<Rightarrow> rat option" where
  "series_max xs =
     (case List.map_filter id xs of [] \<Rightarrow> None | v # vs \<Rightarrow> Some (fold max vs v))"

text \<open>Lines 134 to 140: the reading of the Fear and Greed index. No status is checked on
  this path; every exception of the block is caught and gives the sentinel pair.\<close>

definition sentiment :: "world \<Rightarrow> json \<times> json" where
  "sentiment w =
     (case
        (case w FearGreed of
           Raised e \<Rightarrow> Inl e
         | Response status body \<Rightarrow>
             bind_result (response_json body) (\<lambda>payload.
             bind_result (subscript payload ''data'') (\<lambda>d.
             bind_result (first_item d) (\<lambda>fng.
             bind_result (subscript fng ''value'') (\<lambda>fear_greed.
             bind_result (subscript fng ''value_classification'') (\<lambda>fng_text.
               Inr (fear_greed, fng_text)))))))
      of
        Inl e \<Rightarrow> (JStr ''N/A'', JStr ''Unavailable'')
      | Inr reading \<Rightarrow> reading)"

text \<open>The characters of the report outside ASCII, as their UTF-8 bytes.\<close>

definition rule_line :: string where
  "rule_line = [CHR 0xE2, CHR 0xB8, CHR 0xBB]"

definition coin_sign :: string where
  "coin_sign = [CHR 0xF0, CHR 0x9F, CHR 0xAA, CHR 0x99]"

definition em_dash :: string where
  "em_dash = [CHR 0xE2, CHR 0x80, CHR 0x94]"

definition infinity_sign :: string where
  "infinity_sign = [CHR 0xE2, CHR 0x88, CHR 0x9E]"

definition ellipsis :: string where
  "ellipsis = [CHR 0xE2, CHR 0x80, CHR 0xA6]"

definition chart_sign :: string where
  "chart_sign = [CHR 0xF0, CHR 0x9F, CHR 0x93, CHR 0x88]"

definition news_sign :: string where
  "news_sign = [CHR 0xF0, CHR 0x9F, CHR 0x93, CHR 0xB0]"

definition wrench_sign :: string where
  "wrench_sign = [CHR 0xF0, CHR 0x9F, CHR 0x94, CHR 0xA7]"

definition link_sign :: string where
  "link_sign = [CHR 0xF0, CHR 0x9F, CHR 0x94, CHR 0x97]"

definition bars_sign :: string where
  "bars_sign = [CHR 0xF0, CHR 0x9F, CHR 0x93, CHR 0x8A]"

definition cross_sign :: string where
  "cross_sign = [CHR 0xE2, CHR 0x9D, CHR 0x8C]"

definition newline :: string where
  "newline = [CHR 0x0A]"

text \<open>Line 116.\<close>

definition not_found_message :: "string \<Rightarrow> string" where
  "not_found_message symbol =
     cross_sign @ '' Asset symbol '' @ [CHR 0x27] @ symbol @ [CHR 0x27]
       @ '' not found on CoinGecko.''"

text \<open>\<^verbatim>\<open>s.replace(chr(10), ' ')\<close>, a method of strings only; and \<^verbatim>\<open>"\n".join(lines)\<close>.\<close>

fun method_replace_newlines :: "json \<Rightarrow> error + string" where
  "method_replace_newlines (JStr s) = Inr (map (\<lambda>c. if c = CHR 0x0A then CHR 0x20 else c) s)"
| "method_replace_newlines _ = Inl AttributeError"

fun join_lines :: "string list \<Rightarrow> string" where
  "join_lines [] = []"
| "join_lines [l] = l"
| "join_lines (l # ls) = l @ newline @ join_lines ls"

text \<open>Lines 143 to 184: the lines of the report, each field evaluated in the order of the
  source, so that the first field that raises decides the exception.\<close>

definition report_lines ::
  "runtime \<Rightarrow> overview \<Rightarrow> (string \<times> rat option) list \<Rightarrow> rat option \<Rightarrow> rat option \<Rightarrow> series
     \<Rightarrow> json \<Rightarrow> json \<Rightarrow> error + string list" where
  "report_lines rt overview latest support resistance close fear_greed fng_text =
     bind_result (fmt_comma rt (ov_current_price overview)) (\<lambda>price.
     bind_result (human_format rt (ov_market_cap overview)) (\<lambda>market_cap.
     bind_result (human_format rt (ov_volume_24h overview)) (\<lambda>volume.
     bind_result (human_format rt (ov_circulating_supply overview)) (\<lambda>circulating.
     bind_result (if truthy (ov_total_supply overview)
                  then human_format rt (ov_total_supply overview)
                  else Inr infinity_sign) (\<lambda>total.
     bind_result (if truthy (ov_description overview)
                  then bind_result (method_replace_newlines (ov_description overview))
                         (\<lambda>d. Inr [''Utility: '' @ d @ ellipsis])
                  else Inr []) (\<lambda>utility.
     bind_result (cell latest ''SMA20'') (\<lambda>sma20.
     bind_result (cell latest ''SMA50'') (\<lambda>sma50.
     bind_result (cell latest ''SMA200'') (\<lambda>sma200.
     bind_result (cell latest ''EMA20'') (\<lambda>ema20.
     bind_result (cell latest ''EMA50'') (\<lambda>ema50.
     bind_result (cell latest ''EMA200'') (\<lambda>ema200.
     bind_result (cell latest ''RSI'') (\<lambda>rsi.
     bind_result (cell latest ''MACD_12_26_9'') (\<lambda>macd.
     bind_result (cell latest ''MACDs_12_26_9'') (\<lambda>signal.
     bind_result (cell latest ''BBL_20_2.0'') (\<lambda>bbl.
     bind_result (cell latest ''BBM_20_2.0'') (\<lambda>bbm.
     bind_result (cell latest ''BBU_20_2.0'') (\<lambda>bbu.
     bind_result (build_ascii_chart rt close 60) (\<lambda>chart_ascii.
       Inr ([rule_line,
             coin_sign @ '' Overview '' @ em_dash @ '' '' @ py_str rt (ov_name overview)
               @ '' ('' @ ov_symbol overview @ '')'',
             ''Price: $'' @ price @ '' | Market Cap: $'' @ market_cap
               @ '' | 24h Vol: $'' @ volume,
             ''Supply: '' @ circulating @ '' / '' @ total]
            @ utility
            @ [newline @ chart_sign @ '' Technical Analysis'',
               ''SMA(20/50/200): '' @ fmt_2f_cell sma20 @ '', '' @ fmt_2f_cell sma50
                 @ '', '' @ fmt_2f_cell sma200,
               ''EMA(20/50/200): '' @ fmt_2f_cell ema20 @ '', '' @ fmt_2f_cell ema50
                 @ '', '' @ fmt_2f_cell ema200,
               ''RSI(14): '' @ fmt_2f_cell rsi,
               ''MACD: '' @ fmt_2f_cell macd @ '' | Signal: '' @ fmt_2f_cell signal,
               ''Bollinger Bands (20): Lower '' @ fmt_2f_cell bbl @ '' | Middle ''
                 @ fmt_2f_cell bbm @ '' | Upper '' @ fmt_2f_cell bbu,
               ''Support (30d): '' @ fmt_2f_cell support @ '' | Resistance (30d): ''
                 @ fmt_2f_cell resistance,
               ''Price Chart: '' @ concat chart_ascii,
               newline @ news_sign @ '' Sentiment Analysis'',
               ''Fear & Greed Index: '' @ py_str rt fear_greed @ '' ('' @ py_str rt fng_text
                 @ '')'',
               ''Social Sentiment: '' @ wrench_sign
                 @ '' Not implemented (Twitter/Reddit API required)'',
               ''Whale Activity: '' @ wrench_sign
                 @ '' Not implemented (Whale Alert API required)'',
               newline @ link_sign @ '' On-Chain Metrics'',
               ''Active Addresses: '' @ wrench_sign @ '' Not implemented (Glassnode)'',
               ''Network Fees/Revenue: '' @ wrench_sign @ '' Not implemented'',
               ''Token Velocity: '' @ wrench_sign @ '' Not implemented'',
               newline @ bars_sign @ '' Tokenomics & Fundamentals'',
               ''Allocation Breakdown: '' @ wrench_sign @ '' Not available via free API'',
               ''Vesting Schedule: '' @ wrench_sign @ '' Not available'',
               ''Emission / Inflation: '' @ wrench_sign @ '' Not available'',
               ''Governance: '' @ wrench_sign @ '' Not available'',
               rule_line]))))))))))))))))))))"

text \<open>Lines 122 to 129: the history, its indicators, the latest row and the closes.\<close>

definition technicals ::
  "runtime \<Rightarrow> frame \<Rightarrow> error + ((string \<times> rat option) list \<times> series)" where
  "technicals rt df =
     bind_result (compute_technicals rt df) (\<lambda>df_ta.
     bind_result (iloc_last df_ta) (\<lambda>latest.
     bind_result (column df ''close'') (\<lambda>close. Inr (latest, close))))"

definition analyze_asset ::
  "runtime \<Rightarrow> world \<Rightarrow> string \<Rightarrow> state \<Rightarrow> (error + string) \<times> state" where
  "analyze_asset rt w symbol s =
     (case symbol_to_id w symbol s of
        (Inl e, s1) \<Rightarrow> (Inl e, s1)
      | (Inr coin_id, s1) \<Rightarrow>
          if \<not> truthy coin_id then (Inr (not_found_message symbol), s1)
          else
            (case fetch_market_overview w coin_id s1 of
               (Inl e, s2) \<Rightarrow> (Inl e, s2)
             | (Inr overview, s2) \<Rightarrow>
                 (case fetch_ohlc w coin_id 365 s2 of
                    (Inl e, s3) \<Rightarrow> (Inl e, s3)
                  | (Inr df, s3) \<Rightarrow>
                      (case technicals rt df of
                         Inl e \<Rightarrow> (Inl e, s3)
                       | Inr (latest, close) \<Rightarrow>
                           (bind_result
                              (report_lines rt overview latest
                                 (series_min (tail 30 close)) (series_max (tail 30 close)) close
                                 (fst (sentiment w)) (snd (sentiment w)))
                              (\<lambda>lines. Inr (join_lines lines)),
                            sent FearGreed s3)))))"

subsection \<open>\<^verbatim>\<open>handle_analyze\<close> (lines 197 to 210)\<close>

text \<open>
  The request body is \<open>None\<close> when it is not JSON: \<^verbatim>\<open>get_json(force=True)\<close> then answers 400
  itself. A response is either built by \<^verbatim>\<open>jsonify\<close>, with its status, or the framework's own
  error page, which is also what an exception raised outside the \<^verbatim>\<open>try\<close> block gives.
\<close>

datatype response = JsonResponse json nat | FrameworkError nat

definition handle_analyze ::
  "runtime \<Rightarrow> world \<Rightarrow> json option \<Rightarrow> state \<Rightarrow> response \<times> state" where
  "handle_analyze rt w body s =
     (case body of
        None \<Rightarrow> (FrameworkError 400, s)
      | Some data \<Rightarrow>
          (case bind_result (dict_get data ''command'' (JStr [])) method_strip of
             Inl e \<Rightarrow> (FrameworkError 500, s)
           | Inr command \<Rightarrow>
               if command = [] then
                 (JsonResponse (JObj [(''error'', JStr ''No command provided.'')]) 400, s)
               else
                 (case split command of
                    [] \<Rightarrow> (FrameworkError 500, s)
                  | t # ts \<Rightarrow>
                      (case analyze_asset rt w (upper (last (t # ts))) s of
                         (Inr report, s1) \<Rightarrow>
                           (JsonResponse (JObj [(''report'', JStr report)]) 200, s1)
                       | (Inl exc, s1) \<Rightarrow>
                           (JsonResponse (JObj [(''error'', JStr (exc_str rt exc))]) 500, s1)))))"

section \<open>Data for the closed examples\<close>

text \<open>
  A runtime whose library functions are stand-ins, chosen for the examples, whose closes are
  all equal: the averages and the bands repeat the closes, the RSI is NaN, the MACD columns
  are zero, and every glyph is the same. The examples that use it claim nothing about what
  the libraries compute.
\<close>

definition rt0 :: runtime where
  "rt0 = \<lparr> float_repr = (\<lambda>r. ''?''), container_repr = (\<lambda>v. ''?''),
           float_of_str = (\<lambda>s. None), exc_str = (\<lambda>e. ''error''),
           ta_sma = (\<lambda>c n. c), ta_ema = (\<lambda>c n. c), ta_rsi = (\<lambda>c n. map (\<lambda>x. None) c),
           ta_macd = (\<lambda>c. [(''MACD_12_26_9'', map (\<lambda>x. Some 0) c),
                            (''MACDh_12_26_9'', map (\<lambda>x. Some 0) c),
                            (''MACDs_12_26_9'', map (\<lambda>x. Some 0) c)]),
           ta_bbands = (\<lambda>c. [(''BBL_20_2.0'', c), (''BBM_20_2.0'', c), (''BBU_20_2.0'', c)]),
           spark_glyph = (\<lambda>xs x. ''#'') \<rparr>"

definition coins_example :: "json list" where
  "coins_example =
     [JObj [(''id'', JStr ''ethereum''), (''symbol'', JStr ''eth''), (''name'', JStr ''Ethereum'')],
      JObj [(''id'', JStr ''bitcoin''), (''symbol'', JStr ''btc''), (''name'', JStr ''Bitcoin'')],
      JObj [(''id'', JStr ''batcat''), (''symbol'', JStr ''BTC''), (''name'', JStr ''BatCat'')]]"

definition market_data_example :: json where
  "market_data_example =
     JObj [(''current_price'', JObj [(''usd'', JInt 50000)]),
           (''market_cap'', JObj [(''usd'', JInt 1000000000000)]),
           (''total_volume'', JObj [(''usd'', JInt 20000000000)]),
           (''circulating_supply'', JInt 19000000),
           (''total_supply'', JInt 21000000)]"

definition overview_example :: json where
  "overview_example =
     JObj [(''name'', JStr ''Bitcoin''), (''symbol'', JStr ''btc''),
           (''market_data'', market_data_example),
           (''description'', JObj [(''en'', JStr ''A currency.'')])]"

definition prices_example :: json where
  "prices_example =
     JObj [(''prices'', JArr [JArr [JInt 1700000000000, JInt 50000],
                              JArr [JInt 1700086400000, JInt 50000],
                              JArr [JInt 1700172800000, JInt 50000]])]"

definition fng_example :: json where
  "fng_example =
     JObj [(''data'', JArr [JObj [(''value'', JStr ''50''),
                                  (''value_classification'', JStr ''Neutral'')]])]"

fun world_example :: world where
  "world_example CoinList = Response 200 (Some (JArr coins_example))"
| "world_example (CoinOverview i) = Response 200 (Some overview_example)"
| "world_example (MarketChart i d) = Response 200 (Some prices_example)"
| "world_example FearGreed = Response 200 (Some fng_example)"

definition st0 :: state where
  "st0 = \<lparr> coin_list_cache = None, requests_made = [] \<rparr>"

section \<open>Predicates used to state the properties\<close>



definition coin_id :: "json \<Rightarrow> json" where
  "coin_id c = (case c of JObj kvs \<Rightarrow> (case map_of kvs ''id'' of Some i \<Rightarrow> i | None \<Rightarrow> JNull) | _ \<Rightarrow> JNull)"

text \<open>The value under a key of an object, and the value reached by a path of keys;
  \<open>None\<close> when a key is missing or the value on the way is not an object.\<close>

fun field :: "json \<Rightarrow> string \<Rightarrow> json option" where
  "field (JObj kvs) k = map_of kvs k"
| "field _ k = None"






text \<open>The example world with the sentiment answered under status 500, and the report the
  example world gives for the symbol \<^verbatim>\<open>BTC\<close>, as a function of the two sentiment fields.\<close>

definition world_fng_500 :: world where
  "world_fng_500 = world_example (FearGreed := Response 500 (Some fng_example))"

definition example_overview :: overview where
  "example_overview =
     \<lparr> ov_name = JStr ''Bitcoin'', ov_symbol = ''BTC'', ov_current_price = JInt 50000,
       ov_market_cap = JInt 1000000000000, ov_volume_24h = JInt 20000000000,
       ov_circulating_supply = JInt 19000000, ov_total_supply = JInt 21000000,
       ov_description = JStr ''A currency.'' \<rparr>"

definition example_latest :: "(string \<times> rat option) list" where
  "example_latest =
     [(''close'', Some 50000), (''SMA20'', Some 50000), (''SMA50'', Some 50000),
      (''SMA200'', Some 50000), (''EMA20'', Some 50000), (''EMA50'', Some 50000),
      (''EMA200'', Some 50000), (''RSI'', None), (''MACD_12_26_9'', Some 0),
      (''MACDh_12_26_9'', Some 0), (''MACDs_12_26_9'', Some 0), (''BBL_20_2.0'', Some 50000),
      (''BBM_20_2.0'', Some 50000), (''BBU_20_2.0'', Some 50000)]"

definition example_report :: "string \<Rightarrow> string \<Rightarrow> string list" where
  "example_report fear_greed fng_text =
     [rule_line,
      coin_sign @ '' Overview '' @ em_dash @ '' Bitcoin (BTC)'',
      ''Price: $50,000 | Market Cap: $1.00T | 24h Vol: $20.00B'',
      ''Supply: 19.00M / 21.00M'',
      ''Utility: A currency.'' @ ellipsis,
      newline @ chart_sign @ '' Technical Analysis'',
      ''SMA(20/50/200): 50000.00, 50000.00, 50000.00'',
      ''EMA(20/50/200): 50000.00, 50000.00, 50000.00'',
      ''RSI(14): nan'',
      ''MACD: 0.00 | Signal: 0.00'',
      ''Bollinger Bands (20): Lower 50000.00 | Middle 50000.00 | Upper 50000.00'',
      ''Support (30d): 50000.00 | Resistance (30d): 50000.00'',
      ''Price Chart: ###'',
      newline @ news_sign @ '' Sentiment Analysis'',
      ''Fear & Greed Index: '' @ fear_greed @ '' ('' @ fng_text @ '')'',
      ''Social Sentiment: '' @ wrench_sign @ '' Not implemented (Twitter/Reddit API required)'',
      ''Whale Activity: '' @ wrench_sign @ '' Not implemented (Whale Alert API required)'',
      newline @ link_sign @ '' On-Chain Metrics'',
      ''Active Addresses: '' @ wrench_sign @ '' Not implemented (Glassnode)'',
      ''Network Fees/Revenue: '' @ wrench_sign @ '' Not implemented'',
      ''Token Velocity: '' @ wrench_sign @ '' Not implemented'',
      newline @ bars_sign @ '' Tokenomics & Fundamentals'',
      ''Allocation Breakdown: '' @ wrench_sign @ '' Not available via free API'',
      ''Vesting Schedule: '' @ wrench_sign @ '' Not available'',
      ''Emission / Inflation: '' @ wrench_sign @ '' Not available'',
      ''Governance: '' @ wrench_sign @ '' Not available'',
      rule_line]"

section \<open>Properties of the formatting helpers\<close>

lemma bind_result_simps [simp]:
  "bind_result (Inl e) f = Inl e" "bind_result (Inr x) f = f x"
  by (simp_all add: bind_result_def)

lemma floor_rat_divide_numeral [simp]:
  "\<lfloor>numeral a / numeral b :: rat\<rfloor> = numeral a div numeral b"
  by (metis floor_divide_of_int_eq of_int_numeral)

lemma human_scale_inv:
  "human_scale k n = (k', m) \<Longrightarrow>
     k \<le> k' \<and> n = m * 1000 ^ (k' - k) \<and> \<bar>m\<bar> < 1000 \<and> (k < k' \<longrightarrow> 1 \<le> \<bar>m\<bar>)"
proof (induction k n rule: human_scale.induct)
  case (1 magnitude num)
  show ?case
  proof (cases "1000 \<le> \<bar>num\<bar>")
    case True
    then have rec: "human_scale (magnitude + 1) (num / 1000) = (k', m)"
      using "1.prems" by (simp add: human_scale.simps [of magnitude num])
    from "1.IH" [OF True rec]
    have ih: "magnitude + 1 \<le> k'" "num / 1000 = m * 1000 ^ (k' - (magnitude + 1))"
      "\<bar>m\<bar> < 1000" "magnitude + 1 < k' \<longrightarrow> 1 \<le> \<bar>m\<bar>" by auto
    have "k' - magnitude = Suc (k' - (magnitude + 1))" using ih(1) by simp
    then have "num = m * 1000 ^ (k' - magnitude)" using ih(2) by simp
    moreover have "1 \<le> \<bar>m\<bar>"
    proof (cases "magnitude + 1 < k'")
      case True then show ?thesis using ih(4) by simp
    next
      case False
      then have "k' = magnitude + 1" using ih(1) by simp
      then have "m = num / 1000" using ih(2) by simp
      then show ?thesis using True by simp
    qed
    ultimately show ?thesis using ih by simp
  next
    case False
    then have "k' = magnitude" "m = num"
      using "1.prems" by (simp_all add: human_scale.simps [of magnitude num])
    then show ?thesis using False by simp
  qed
qed

lemma human_scale_bounds:
  assumes hs: "human_scale 0 n = (k, m)"
  shows "n = m * 1000 ^ k" and "\<bar>m\<bar> < 1000" and "0 < k \<Longrightarrow> 1 \<le> \<bar>m\<bar>"
    and "\<bar>n\<bar> < 1000 \<Longrightarrow> k = 0 \<and> m = n"
    and "1 \<le> \<bar>n\<bar> \<Longrightarrow> 1 \<le> \<bar>m\<bar> \<and> 1000 ^ k \<le> \<bar>n\<bar> \<and> \<bar>n\<bar> < 1000 ^ (k + 1)"
    and "\<bar>n\<bar> < 1000 ^ j \<Longrightarrow> 0 < j \<Longrightarrow> k < j"
proof -
  from human_scale_inv [OF hs]
  have eq: "n = m * 1000 ^ k" and lt: "\<bar>m\<bar> < 1000" and ge: "0 < k \<longrightarrow> 1 \<le> \<bar>m\<bar>"
    by simp_all
  show "n = m * 1000 ^ k" by (rule eq)
  show "\<bar>m\<bar> < 1000" by (rule lt)
  show "0 < k \<Longrightarrow> 1 \<le> \<bar>m\<bar>" using ge by simp
  have abs_eq: "\<bar>n\<bar> = \<bar>m\<bar> * 1000 ^ k" using eq by (simp add: abs_mult)
  show "k = 0 \<and> m = n" if small: "\<bar>n\<bar> < 1000"
    using hs small by (simp add: human_scale.simps [of 0 n])
  show "1 \<le> \<bar>m\<bar> \<and> 1000 ^ k \<le> \<bar>n\<bar> \<and> \<bar>n\<bar> < 1000 ^ (k + 1)" if one: "1 \<le> \<bar>n\<bar>"
  proof -
    have m1: "1 \<le> \<bar>m\<bar>"
    proof (cases "k = 0")
      case True then show ?thesis using eq one by simp
    next
      case False then show ?thesis using ge by simp
    qed
    have "1 * (1000::rat) ^ k \<le> \<bar>m\<bar> * 1000 ^ k"
      by (rule mult_right_mono) (use m1 in simp_all)
    moreover have "\<bar>m\<bar> * (1000::rat) ^ k < 1000 * 1000 ^ k"
      by (rule mult_strict_right_mono) (use lt in simp_all)
    ultimately show ?thesis using m1 abs_eq by simp
  qed
  show "k < j" if small: "\<bar>n\<bar> < 1000 ^ j" and j: "0 < j"
  proof (rule ccontr)
    assume "\<not> k < j"
    then have kj: "j \<le> k" by simp
    then have "0 < k" using j by simp
    then have m1: "1 \<le> \<bar>m\<bar>" using ge by simp
    have "(1000::rat) ^ j \<le> 1000 ^ k" using kj by (simp add: power_increasing)
    also have "\<dots> = 1 * 1000 ^ k" by simp
    also have "\<dots> \<le> \<bar>m\<bar> * 1000 ^ k"
      by (rule mult_right_mono) (use m1 in simp_all)
    finally show False using small abs_eq by simp
  qed
qed






text \<open>From \<open>1000\<^sup>5\<close> on there is no suffix left and the indexing of line 29 raises.\<close>

lemma human_format_IndexError:
  assumes "py_float rt v = Inr n" and "1000 ^ 5 \<le> \<bar>n\<bar>"
  shows "human_format rt v = Inl IndexError"
proof -
  obtain k m where hs: "human_scale 0 n = (k, m)" by (cases "human_scale 0 n")
  have "\<not> k < 5"
  proof
    assume "k < 5"
    then have "k + 1 \<le> 5" by simp
    then have "(1000::rat) ^ (k + 1) \<le> 1000 ^ 5" by (intro power_increasing) simp_all
    moreover have "\<bar>n\<bar> < 1000 ^ (k + 1)"
      using human_scale_bounds(5) [OF hs] assms(2) by simp
    ultimately show False using assms(2) by simp
  qed
  then show ?thesis using assms(1) hs by (simp add: human_format_def suffixes_def)
qed

section \<open>Symbol resolution\<close>


lemma get_coin_list_example:
  "get_coin_list world_example st0 =
     (Inr (JArr coins_example),
      \<lparr> coin_list_cache = Some (JArr coins_example), requests_made = [CoinList] \<rparr>)"
  by (simp add: get_coin_list_def st0_def sent_def raise_for_status_def response_json_def)

lemma lower_examples:
  "lower ''btc'' = ''btc''" "lower ''BTC'' = ''btc''" "lower ''Btc'' = ''btc''"
  "lower ''ZZZZ'' = ''zzzz''" "lower ''eth'' = ''eth''"
  by (simp_all add: lower_def lower_char_def)




section \<open>The price chart\<close>

lemma stride_one [simp]: "stride (Suc 0) xs = xs"
  by (induction xs) simp_all

lemma length_stride:
  "0 < k \<Longrightarrow> length (stride k xs) = (length xs + k - 1) div k"
proof (induction k xs rule: stride.induct)
  case (1 k)
  then show ?case by simp
next
  case (2 k x xs)
  define n where "n = length (drop (k - 1) xs)"
  have n: "n = length xs - (k - 1)" by (simp add: n_def)
  have ih: "length (stride k (drop (k - 1) xs)) = (n + k - 1) div k"
    using "2.IH" "2.prems" by (simp add: n_def)
  have "(n + k - 1) div k = length xs div k"
  proof (cases "k - 1 \<le> length xs")
    case True
    then have "n + k - 1 = length xs" using "2.prems" n by arith
    then show ?thesis by (simp only:)
  next
    case False
    then have "length xs < k" "n + k - 1 = k - 1" using n by arith+
    then show ?thesis using "2.prems" by simp
  qed
  moreover have "(length (x # xs) + k - 1) div k = Suc (length xs div k)"
  proof -
    have "length (x # xs) + k - 1 = length xs + k" by simp
    then show ?thesis using "2.prems" by simp
  qed
  ultimately show ?case using ih by simp
qed

lemma nth_stride:
  "0 < k \<Longrightarrow> i < length (stride k xs) \<Longrightarrow> stride k xs ! i = xs ! (i * k)"
proof (induction k xs arbitrary: i rule: stride.induct)
  case (1 k)
  then show ?case by simp
next
  case (2 k x xs)
  show ?case
  proof (cases i)
    case 0
    then show ?thesis by simp
  next
    case (Suc j)
    then have j: "j < length (stride k (drop (k - 1) xs))" using "2.prems" by simp
    then have ne: "stride k (drop (k - 1) xs) \<noteq> []" by auto
    then have "drop (k - 1) xs \<noteq> []" by auto
    then have le: "k - 1 \<le> length xs" by simp
    have "stride k (x # xs) ! i = stride k (drop (k - 1) xs) ! j" using Suc by simp
    also have "\<dots> = drop (k - 1) xs ! (j * k)" using "2.IH" [OF "2.prems"(1) j] .
    also have "\<dots> = xs ! (k - 1 + j * k)" using le by (simp add: nth_drop)
    also have "\<dots> = (x # xs) ! Suc (k - 1 + j * k)" by simp
    also have "Suc (k - 1 + j * k) = i * k" using Suc "2.prems"(1) by simp
    finally show ?thesis .
  qed
qed

lemma build_ascii_chart_short:
  "int (length series) < width \<Longrightarrow>
     build_ascii_chart rt series width = Inr (map (spark_glyph rt series) series)"
  by (simp add: build_ascii_chart_def sparklines_def)

lemma build_ascii_chart_long:
  assumes "0 < width" and "width \<le> int (length series)"
  shows "build_ascii_chart rt series width =
           Inr (map (spark_glyph rt (stride (length series div nat width) series))
                  (stride (length series div nat width) series))"
    and "0 < length series div nat width"
proof -
  have eq: "int (length series) div width = int (length series div nat width)"
    using assms(1) by (simp add: zdiv_int)
  have "nat width \<le> length series" using assms by simp
  then show pos: "0 < length series div nat width"
    using assms(1) by (simp add: div_greater_zero_iff)
  then show "build_ascii_chart rt series width =
           Inr (map (spark_glyph rt (stride (length series div nat width) series))
                  (stride (length series div nat width) series))"
    using assms eq by (simp add: build_ascii_chart_def sparklines_def slice_step_def Let_def)
qed

text \<open>
  Claim C9, for a positive width (the default is 60; at width 0 the quotient of the claim is
  not defined and line 108 raises \<^verbatim>\<open>ZeroDivisionError\<close>). A series shorter than the width is
  drawn with one glyph for each of its points. Otherwise the step is the floor of the length
  over the width, it is positive, and the chart has one glyph for each point of the series
  taken at the indices 0, step, 2 step and so on: the sample is made of input points only,
  nothing is averaged or interpolated, and the glyphs are scaled on the sample. A series of
  30 points at width 60 gives 30 glyphs, a series of 600 points gives 60.
\<close>

theorem build_ascii_chart_stride_sampling:
  assumes "0 < width"
  shows "(int (length series) < width \<longrightarrow>
            build_ascii_chart rt series width = Inr (map (spark_glyph rt series) series))
       \<and> (width \<le> int (length series) \<longrightarrow>
            0 < length series div nat width
          \<and> build_ascii_chart rt series width =
              Inr (map (spark_glyph rt (stride (length series div nat width) series))
                     (stride (length series div nat width) series))
          \<and> length (stride (length series div nat width) series) =
              (length series + length series div nat width - 1) div (length series div nat width)
          \<and> (\<forall>i < length (stride (length series div nat width) series).
                stride (length series div nat width) series ! i =
                  series ! (i * (length series div nat width))))
       \<and> (length series = 30 \<and> width = 60 \<longrightarrow>
            map_sum id length (build_ascii_chart rt series width) = Inr 30)
       \<and> (length series = 600 \<and> width = 60 \<longrightarrow>
            map_sum id length (build_ascii_chart rt series width) = Inr 60)"
proof -
  have short: "int (length series) < width \<longrightarrow>
      build_ascii_chart rt series width = Inr (map (spark_glyph rt series) series)"
    by (simp add: build_ascii_chart_short)
  have long: "width \<le> int (length series) \<longrightarrow>
            0 < length series div nat width
          \<and> build_ascii_chart rt series width =
              Inr (map (spark_glyph rt (stride (length series div nat width) series))
                     (stride (length series div nat width) series))
          \<and> length (stride (length series div nat width) series) =
              (length series + length series div nat width - 1) div (length series div nat width)
          \<and> (\<forall>i < length (stride (length series div nat width) series).
                stride (length series div nat width) series ! i =
                  series ! (i * (length series div nat width)))"
  proof
    assume w: "width \<le> int (length series)"
    have pos: "0 < length series div nat width"
      by (rule build_ascii_chart_long(2) [OF assms w])
    have nth: "\<forall>i < length (stride (length series div nat width) series).
                stride (length series div nat width) series ! i =
                  series ! (i * (length series div nat width))"
      by (intro allI impI nth_stride [OF pos])
    show "0 < length series div nat width
          \<and> build_ascii_chart rt series width =
              Inr (map (spark_glyph rt (stride (length series div nat width) series))
                     (stride (length series div nat width) series))
          \<and> length (stride (length series div nat width) series) =
              (length series + length series div nat width - 1) div (length series div nat width)
          \<and> (\<forall>i < length (stride (length series div nat width) series).
                stride (length series div nat width) series ! i =
                  series ! (i * (length series div nat width)))"
      by (intro conjI pos build_ascii_chart_long(1) [OF assms w] length_stride [OF pos] nth)
  qed
  have ex30: "length series = 30 \<and> width = 60 \<longrightarrow>
            map_sum id length (build_ascii_chart rt series width) = Inr 30"
    by (simp add: build_ascii_chart_short)
  have ex600: "length series = 600 \<and> width = 60 \<longrightarrow>
            map_sum id length (build_ascii_chart rt series width) = Inr 60"
  proof
    assume h: "length series = 600 \<and> width = 60"
    then have w: "width \<le> int (length series)" and p: "(0::int) < width" by simp_all
    have step: "length series div nat width = 10" using h by simp
    show "map_sum id length (build_ascii_chart rt series width) = Inr 60"
      using build_ascii_chart_long(1) [OF p w, where rt = rt] length_stride [of 10 series] h
      by (simp add: step)
  qed
  show ?thesis using short long ex30 ex600 by (intro conjI)
qed

text \<open>The theorem at width 2: five points are sampled at the indices 0, 2 and 4, and one
  point is drawn as it is.\<close>

theorem build_ascii_chart_stride_sampling_witness:
  "(0::int) < 2
   \<and> build_ascii_chart rt0 [Some 1, Some 2, Some 3, Some 4, Some 5] 2
       = Inr [''#'', ''#'', ''#'']
   \<and> stride (5 div nat 2) [Some 1, Some 2, Some 3, Some 4, Some (5::rat)]
       = [Some 1, Some 3, Some 5]
   \<and> build_ascii_chart rt0 [Some 7] 2 = Inr [''#'']"
proof -
  have p: "(0::int) < 2" by simp
  have s: "stride (5 div nat 2) [Some 1, Some 2, Some 3, Some 4, Some (5::rat)]
       = [Some 1, Some 3, Some 5]" by simp
  show ?thesis
    using build_ascii_chart_stride_sampling
            [OF p, of "[Some 1, Some 2, Some 3, Some 4, Some 5]" rt0]
          build_ascii_chart_stride_sampling [OF p, of "[Some 7]" rt0] s
    by (simp add: rt0_def)
qed

text \<open>
  Claim C10, as the code has it. For a series whose length \<open>L\<close> satisfies
  \<open>width \<le> L < 2 width\<close> the step is 1 and the chart has one glyph for every input point, so
  \<open>L\<close> glyphs: at least the width, and more than the width whenever \<open>width < L\<close>. A series of
  90 points at width 60 gives 90 glyphs.
\<close>

theorem build_ascii_chart_stride_one:
  assumes "width \<le> int (length series)" and "int (length series) < 2 * width"
  shows "int (length series) div width = 1
       \<and> build_ascii_chart rt series width = Inr (map (spark_glyph rt series) series)
       \<and> map_sum id length (build_ascii_chart rt series width) = Inr (length series)
       \<and> width \<le> int (length series)
       \<and> (width < int (length series) \<longrightarrow>
            (\<exists>g. build_ascii_chart rt series width = Inr g \<and> width < int (length g)))
       \<and> map_sum id length (build_ascii_chart rt (replicate 90 (Some 1)) 60) = Inr 90"
proof -
  have p: "0 < width" using assms by linarith
  have one: "int (length series) div width = 1"
  proof -
    have "(width + (int (length series) - width)) div width
        = (int (length series) - width) div width + 1"
      using p by (simp only: div_add_self1 [of width "int (length series) - width"])
    moreover have "(int (length series) - width) div width = 0"
      using assms by (intro div_pos_pos_trivial) simp_all
    ultimately show ?thesis by simp
  qed
  then have chart: "build_ascii_chart rt series width = Inr (map (spark_glyph rt series) series)"
    using assms p by (simp add: build_ascii_chart_def sparklines_def slice_step_def)
  have "int (length (replicate 90 (Some (1::rat)))) div 60 = 1" by simp
  then have ex: "map_sum id length (build_ascii_chart rt (replicate 90 (Some 1)) 60) = Inr 90"
    by (simp add: build_ascii_chart_def sparklines_def slice_step_def)
  show ?thesis using one chart assms(1) ex by simp
qed

text \<open>The theorem at 90 points and width 60.\<close>

theorem build_ascii_chart_stride_one_witness:
  "(60::int) \<le> int (length (replicate 90 (Some (1::rat))))
   \<and> int (length (replicate 90 (Some (1::rat)))) < 2 * 60
   \<and> map_sum id length (build_ascii_chart rt0 (replicate 90 (Some 1)) 60) = Inr 90
   \<and> (60::nat) < 90"
proof -
  have a: "(60::int) \<le> int (length (replicate 90 (Some (1::rat))))" by simp
  have b: "int (length (replicate 90 (Some (1::rat)))) < 2 * 60" by simp
  show ?thesis using build_ascii_chart_stride_one [OF a b, of rt0] by simp
qed

text \<open>Claim C10 as stated fails at \<open>L = width\<close>: 60 points at width 60 give 60 glyphs, which
  does not exceed the width.\<close>

theorem build_ascii_chart_width_counterexample:
  "(60::int) \<le> int (length (replicate 60 (Some (1::rat))))
   \<and> int (length (replicate 60 (Some (1::rat)))) < 2 * 60
   \<and> map_sum id length (build_ascii_chart rt0 (replicate 60 (Some 1)) 60) = Inr 60
   \<and> \<not> (60::nat) < 60"
proof -
  have "int (length (replicate 60 (Some (1::rat)))) div 60 = 1" by simp
  then show ?thesis
    by (simp add: build_ascii_chart_def sparklines_def slice_step_def)
qed

section \<open>The request handler\<close>


lemma strip_nonempty_has_word:
  assumes "strip c \<noteq> []"
  shows "\<exists>ch \<in> set (strip c). \<not> is_space ch"
proof -
  let ?r = "dropWhile is_space (rev (dropWhile is_space c))"
  from assms have ne: "?r \<noteq> []" by (simp add: strip_def)
  then have "\<not> is_space (hd ?r)" by (rule hd_dropWhile)
  moreover have "hd ?r \<in> set (strip c)" using ne by (simp add: strip_def)
  ultimately show ?thesis by blast
qed

lemma split_from_nonempty:
  "cur \<noteq> [] \<or> (\<exists>ch \<in> set s. \<not> is_space ch) \<Longrightarrow> split_from cur s \<noteq> []"
  by (induction cur s rule: split_from.induct) auto

lemma split_strip_nonempty: "strip c \<noteq> [] \<Longrightarrow> split (strip c) \<noteq> []"
  unfolding split_def by (rule split_from_nonempty) (simp add: strip_nonempty_has_word)











section \<open>The market overview\<close>



lemma field_subscript: "field v k = Some u \<Longrightarrow> subscript v k = Inr u"
  by (cases v) simp_all

lemma field_dict_get: "field v k = Some u \<Longrightarrow> dict_get v k d = Inr u"
  by (cases v) simp_all

lemma field_None_dict_get: "field (JObj kvs) k = None \<Longrightarrow> dict_get (JObj kvs) k d = Inr d"
  by simp











section \<open>The report and the sentiment reading\<close>

lemma hs_cap: "human_scale 0 1000000000000 = (4, 1)"
  by (simp add: human_scale.simps)

lemma hs_vol: "human_scale 0 20000000000 = (3, 20)"
  by (simp add: human_scale.simps)

lemma hs_circ: "human_scale 0 19000000 = (2, 19)"
  by (simp add: human_scale.simps)

lemma hs_total: "human_scale 0 21000000 = (2, 21)"
  by (simp add: human_scale.simps)

lemma fmt_2f_examples:
  "fmt_2f 1 = ''1.00''" "fmt_2f 20 = ''20.00''" "fmt_2f 19 = ''19.00''" "fmt_2f 21 = ''21.00''"
  "fmt_2f 50000 = ''50000.00''" "fmt_2f 0 = ''0.00''"
  by (simp_all add: fmt_2f_def round_half_even_def Let_def dec_digits.simps)

lemma human_format_examples:
  "human_format rt (JInt 1000000000000) = Inr ''1.00T''"
  "human_format rt (JInt 20000000000) = Inr ''20.00B''"
  "human_format rt (JInt 19000000) = Inr ''19.00M''"
  "human_format rt (JInt 21000000) = Inr ''21.00M''"
  by (simp_all add: human_format_def hs_cap hs_vol hs_circ hs_total suffixes_def fmt_2f_examples)

lemma int_str_example: "int_str 50000 = ''50000''"
  by (simp add: int_str_def dec_digits.simps)

lemma comma_number_example: "comma_number ''50000'' = ''50,000''"
  by (simp add: comma_number_def is_digit_def)


lemma chart_example:
  "build_ascii_chart rt0 [Some 50000, Some 50000, Some 50000] 60 = Inr [''#'', ''#'', ''#'']"
  by (simp add: build_ascii_chart_def sparklines_def rt0_def)

lemma report_lines_example:
  "report_lines rt0 example_overview example_latest (Some 50000) (Some 50000)
     [Some 50000, Some 50000, Some 50000] (JStr a) (JStr b) = Inr (example_report a b)"
  by (simp add: report_lines_def example_overview_def example_latest_def example_report_def
      human_format_examples int_str_example comma_number_example chart_example cell_def
      fmt_2f_cell_def fmt_2f_examples)

lemma analyze_example:
  assumes "w CoinList = Response 200 (Some (JArr coins_example))"
    and "w (CoinOverview (JStr ''bitcoin'')) = Response 200 (Some overview_example)"
    and "w (MarketChart (JStr ''bitcoin'') 365) = Response 200 (Some prices_example)"
    and "sentiment w = (JStr a, JStr b)"
  shows "analyze_asset rt0 w ''BTC'' st0 =
           (Inr (join_lines (example_report a b)),
            \<lparr> coin_list_cache = Some (JArr coins_example),
              requests_made = [CoinList, CoinOverview (JStr ''bitcoin''),
                               MarketChart (JStr ''bitcoin'') 365, FearGreed] \<rparr>)"
proof -
  let ?s1 = "\<lparr> coin_list_cache = Some (JArr coins_example), requests_made = [CoinList] \<rparr>"
  have id: "symbol_to_id w ''BTC'' st0 = (Inr (JStr ''bitcoin''), ?s1)"
    using assms(1)
    by (simp add: symbol_to_id_def get_coin_list_def st0_def sent_def raise_for_status_def
        response_json_def coins_example_def lower_def lower_char_def)
  let ?s2 = "\<lparr> coin_list_cache = Some (JArr coins_example),
               requests_made = [CoinList, CoinOverview (JStr ''bitcoin'')] \<rparr>"
  let ?s3 = "\<lparr> coin_list_cache = Some (JArr coins_example),
               requests_made = [CoinList, CoinOverview (JStr ''bitcoin''),
                                MarketChart (JStr ''bitcoin'') 365] \<rparr>"
  have ov: "fetch_market_overview w (JStr ''bitcoin'') ?s1 = (Inr example_overview, ?s2)"
    using assms(2)
    by (simp add: fetch_market_overview_def raise_for_status_def response_json_def
        overview_of_def overview_example_def market_data_example_def example_overview_def
        upper_def upper_char_def sent_def)
  have df: "fetch_ohlc w (JStr ''bitcoin'') 365 ?s2 =
      (Inr [(''close'', [Some 50000, Some 50000, Some 50000])], ?s3)"
    using assms(3)
    by (simp add: fetch_ohlc_def raise_for_status_def response_json_def prices_example_def
        sent_def)
  have ta: "technicals rt0 [(''close'', [Some 50000, Some 50000, Some 50000])] =
      Inr (example_latest, [Some 50000, Some 50000, Some 50000])"
    by (simp add: technicals_def compute_technicals_def column_def align_def iloc_last_def
        rt0_def example_latest_def)
  have win: "series_min (tail 30 [Some 50000, Some 50000, Some (50000::rat)]) = Some 50000"
    "series_max (tail 30 [Some 50000, Some 50000, Some (50000::rat)]) = Some 50000"
    by (simp_all add: series_min_def series_max_def tail_def List.map_filter_def)
  show ?thesis
    by (simp add: analyze_asset_def id ov df ta win assms(4) report_lines_example sent_def)
qed

lemma sentiment_500: "sentiment world_fng_500 = (JStr ''50'', JStr ''Neutral'')"
  by (simp add: sentiment_def world_fng_500_def response_json_def fng_example_def)

text \<open>
  Claim C7 on a response the code accepts against the claim. The sentiment request is
  answered with status 500 and a body that is a well-formed payload. No status is checked on
  this path (the three other fetches call \<^verbatim>\<open>raise_for_status\<close>), so the payload is read: the
  reading is 50 and Neutral, not the sentinel pair, and the report says so.
\<close>

theorem sentiment_status_not_checked:
  "world_fng_500 FearGreed = Response 500 (Some fng_example)
   \<and> sentiment world_fng_500 = (JStr ''50'', JStr ''Neutral'')
   \<and> fst (handle_analyze rt0 world_fng_500 (Some (JObj [(''command'', JStr ''BTC'')])) st0) =
       JsonResponse (JObj [(''report'', JStr (join_lines (example_report ''50'' ''Neutral'')))]) 200
   \<and> example_report ''50'' ''Neutral'' ! 14 = ''Fear & Greed Index: 50 (Neutral)''"
proof -
  have w: "world_fng_500 FearGreed = Response 500 (Some fng_example)"
    by (simp add: world_fng_500_def)
  have an: "analyze_asset rt0 world_fng_500 ''BTC'' st0 =
           (Inr (join_lines (example_report ''50'' ''Neutral'')),
            \<lparr> coin_list_cache = Some (JArr coins_example),
              requests_made = [CoinList, CoinOverview (JStr ''bitcoin''),
                               MarketChart (JStr ''bitcoin'') 365, FearGreed] \<rparr>)"
    by (rule analyze_example [OF _ _ _ sentiment_500]) (simp_all add: world_fng_500_def)
  have cmd: "strip ''BTC'' = ''BTC''" "split ''BTC'' = [''BTC'']" "upper ''BTC'' = ''BTC''"
    by (simp_all add: strip_def split_def is_space_def upper_def upper_char_def)
  have h: "fst (handle_analyze rt0 world_fng_500 (Some (JObj [(''command'', JStr ''BTC'')])) st0) =
       JsonResponse (JObj [(''report'', JStr (join_lines (example_report ''50'' ''Neutral'')))]) 200"
    by (simp add: handle_analyze_def cmd an)
  have l: "example_report ''50'' ''Neutral'' ! 14 = ''Fear & Greed Index: 50 (Neutral)''"
    by (simp add: example_report_def)
  show ?thesis by (intro conjI w sentiment_500 h l)
qed

text \<open>What the block of lines 134 to 140 does absorb: a call that raises, a body that is
  not JSON, and a payload without a first reading or without one of its two fields.\<close>

lemma sentiment_absorbs:
  "w FearGreed = Raised e \<Longrightarrow> sentiment w = (JStr ''N/A'', JStr ''Unavailable'')"
  "w FearGreed = Response status None \<Longrightarrow> sentiment w = (JStr ''N/A'', JStr ''Unavailable'')"
  "w FearGreed = Response status (Some payload) \<Longrightarrow> isl (subscript payload ''data'') \<Longrightarrow>
     sentiment w = (JStr ''N/A'', JStr ''Unavailable'')"
  "w FearGreed = Response status (Some payload) \<Longrightarrow> subscript payload ''data'' = Inr d \<Longrightarrow>
     isl (first_item d) \<Longrightarrow> sentiment w = (JStr ''N/A'', JStr ''Unavailable'')"
  "w FearGreed = Response status (Some payload) \<Longrightarrow> subscript payload ''data'' = Inr d \<Longrightarrow>
     first_item d = Inr fng \<Longrightarrow>
     isl (subscript fng ''value'') \<or> isl (subscript fng ''value_classification'') \<Longrightarrow>
     sentiment w = (JStr ''N/A'', JStr ''Unavailable'')"
  by (auto simp: sentiment_def response_json_def bind_result_def split: sum.splits)

lemma sentiment_reads_any_status:
  "w FearGreed = Response status (Some payload) \<Longrightarrow> subscript payload ''data'' = Inr d \<Longrightarrow>
     first_item d = Inr fng \<Longrightarrow> subscript fng ''value'' = Inr v \<Longrightarrow>
     subscript fng ''value_classification'' = Inr t \<Longrightarrow> sentiment w = (v, t)"
  by (simp add: sentiment_def response_json_def)








section \<open>Further properties\<close>

text \<open>
  A further property: from \<open>1000\<^sup>5\<close> on there is no suffix left, and \<^verbatim>\<open>human_format\<close> does not
  clamp to the last one: the indexing of line 29 raises \<^verbatim>\<open>IndexError\<close>.
\<close>

theorem human_format_no_clamp:
  assumes "py_float rt v = Inr n" and "1000 ^ 5 \<le> \<bar>n\<bar>"
  shows "human_format rt v = Inl IndexError"
  using assms by (rule human_format_IndexError)

theorem human_format_no_clamp_witness:
  "py_float rt0 (JInt 1000000000000000) = Inr 1000000000000000
   \<and> (1000::rat) ^ 5 \<le> \<bar>1000000000000000\<bar>
   \<and> human_format rt0 (JInt 1000000000000000) = Inl IndexError"
proof -
  have a: "py_float rt0 (JInt 1000000000000000) = Inr 1000000000000000" by simp
  have b: "(1000::rat) ^ 5 \<le> \<bar>1000000000000000\<bar>" by simp
  show ?thesis using human_format_no_clamp [OF a b] a b by simp
qed

text \<open>
  A further property: the part of claim C7 that holds. When the sentiment call raises, when
  its body is not JSON, and when the payload has no \<^verbatim>\<open>data\<close>, an empty \<^verbatim>\<open>data\<close> list, or a first
  reading without \<^verbatim>\<open>value\<close> or \<^verbatim>\<open>value_classification\<close>, the reading is the sentinel pair,
  whatever the status.
\<close>

theorem sentiment_failure_absorbed:
  assumes "(\<exists>e. w FearGreed = Raised e)
         \<or> (\<exists>status. w FearGreed = Response status None)
         \<or> (\<exists>status payload. w FearGreed = Response status (Some payload)
              \<and> (field payload ''data'' = None
                 \<or> field payload ''data'' = Some (JArr [])
                 \<or> (\<exists>fng rest. field payload ''data'' = Some (JArr (fng # rest))
                      \<and> (field fng ''value'' = None
                         \<or> field fng ''value_classification'' = None))))"
  shows "sentiment w = (JStr ''N/A'', JStr ''Unavailable'')"
proof -
  have none: "field v k = None \<Longrightarrow> isl (subscript v k)" for v k
    by (cases v) simp_all
  from assms consider
      e where "w FearGreed = Raised e"
    | status where "w FearGreed = Response status None"
    | status payload where "w FearGreed = Response status (Some payload)"
        "field payload ''data'' = None"
    | status payload where "w FearGreed = Response status (Some payload)"
        "field payload ''data'' = Some (JArr [])"
    | status payload fng rest where "w FearGreed = Response status (Some payload)"
        "field payload ''data'' = Some (JArr (fng # rest))"
        "field fng ''value'' = None \<or> field fng ''value_classification'' = None"
    by blast
  then show ?thesis
  proof cases
    case 1
    then show ?thesis by (simp add: sentiment_def)
  next
    case 2
    then show ?thesis by (simp add: sentiment_def response_json_def)
  next
    case 3
    then show ?thesis
      using none [OF 3(2)]
      by (cases "subscript payload ''data''") (simp_all add: sentiment_def response_json_def)
  next
    case 4
    then show ?thesis
      by (simp add: sentiment_def response_json_def field_subscript)
  next
    case 5
    have "isl (subscript fng ''value'') \<or> isl (subscript fng ''value_classification'')"
      using 5(3) none by blast
    then show ?thesis
      using 5(1,2)
      by (cases "subscript fng ''value''"; cases "subscript fng ''value_classification''")
        (simp_all add: sentiment_def response_json_def field_subscript)
  qed
qed

theorem sentiment_failure_absorbed_witness:
  "(world_example (FearGreed := Raised ConnectionError)) FearGreed = Raised ConnectionError
   \<and> sentiment (world_example (FearGreed := Raised ConnectionError))
       = (JStr ''N/A'', JStr ''Unavailable'')
   \<and> fst (handle_analyze rt0 (world_example (FearGreed := Raised ConnectionError))
            (Some (JObj [(''command'', JStr ''BTC'')])) st0) =
       JsonResponse
         (JObj [(''report'', JStr (join_lines (example_report ''N/A'' ''Unavailable'')))]) 200
   \<and> example_report ''N/A'' ''Unavailable'' ! 14 = ''Fear & Greed Index: N/A (Unavailable)''"
proof -
  let ?w = "world_example (FearGreed := Raised ConnectionError)"
  have w: "?w FearGreed = Raised ConnectionError" by simp
  have s: "sentiment ?w = (JStr ''N/A'', JStr ''Unavailable'')"
    by (rule sentiment_failure_absorbed) (simp add: w)
  have an: "analyze_asset rt0 ?w ''BTC'' st0 =
           (Inr (join_lines (example_report ''N/A'' ''Unavailable'')),
            \<lparr> coin_list_cache = Some (JArr coins_example),
              requests_made = [CoinList, CoinOverview (JStr ''bitcoin''),
                               MarketChart (JStr ''bitcoin'') 365, FearGreed] \<rparr>)"
    by (rule analyze_example [OF _ _ _ s]) simp_all
  have cmd: "strip ''BTC'' = ''BTC''" "split ''BTC'' = [''BTC'']" "upper ''BTC'' = ''BTC''"
    by (simp_all add: strip_def split_def is_space_def upper_def upper_char_def)
  have h: "fst (handle_analyze rt0 ?w (Some (JObj [(''command'', JStr ''BTC'')])) st0) =
       JsonResponse
         (JObj [(''report'', JStr (join_lines (example_report ''N/A'' ''Unavailable'')))]) 200"
    by (simp add: handle_analyze_def cmd an)
  have l: "example_report ''N/A'' ''Unavailable'' ! 14 = ''Fear & Greed Index: N/A (Unavailable)''"
    by (simp add: example_report_def)
  show ?thesis by (intro conjI w s h l)
qed

text \<open>
  A further property: an exception raised anywhere in \<^verbatim>\<open>analyze_asset\<close> is caught by the
  handler and answered with status 500 and the text of the exception under \<^verbatim>\<open>error\<close>.
\<close>

theorem handle_analyze_pipeline_error:
  assumes "map_of kvs ''command'' = Some (JStr c)" and "strip c \<noteq> []"
    and "analyze_asset rt w (upper (last (split (strip c)))) s = (Inl exc, s1)"
  shows "handle_analyze rt w (Some (JObj kvs)) s =
           (JsonResponse (JObj [(''error'', JStr (exc_str rt exc))]) 500, s1)"
proof -
  obtain t ts where tok: "split (strip c) = t # ts"
    using split_strip_nonempty [OF assms(2)] by (cases "split (strip c)") auto
  show ?thesis using assms tok by (simp add: handle_analyze_def)
qed

theorem handle_analyze_pipeline_error_witness:
  "handle_analyze rt0
     (world_example (CoinOverview (JStr ''bitcoin'') := Response 404 None))
     (Some (JObj [(''command'', JStr ''BTC'')])) st0 =
     (JsonResponse (JObj [(''error'', JStr ''error'')]) 500,
      \<lparr> coin_list_cache = Some (JArr coins_example),
        requests_made = [CoinList, CoinOverview (JStr ''bitcoin'')] \<rparr>)"
proof -
  let ?w = "world_example (CoinOverview (JStr ''bitcoin'') := Response 404 None)"
  have cmd: "strip ''BTC'' = ''BTC''" "split ''BTC'' = [''BTC'']" "upper ''BTC'' = ''BTC''"
    by (simp_all add: strip_def split_def is_space_def upper_def upper_char_def)
  have id: "symbol_to_id ?w ''BTC'' st0 =
      (Inr (JStr ''bitcoin''),
       \<lparr> coin_list_cache = Some (JArr coins_example), requests_made = [CoinList] \<rparr>)"
    by (simp add: symbol_to_id_def get_coin_list_def st0_def sent_def raise_for_status_def
        response_json_def coins_example_def lower_def lower_char_def)
  have an: "analyze_asset rt0 ?w (upper (last (split (strip ''BTC'')))) st0 =
      (Inl (HTTPError 404),
       \<lparr> coin_list_cache = Some (JArr coins_example),
         requests_made = [CoinList, CoinOverview (JStr ''bitcoin'')] \<rparr>)"
    by (simp add: cmd analyze_asset_def id fetch_market_overview_def raise_for_status_def
        sent_def)
  have a: "map_of [(''command'', JStr ''BTC'')] ''command'' = Some (JStr ''BTC'')" by simp
  have b: "strip ''BTC'' \<noteq> []" by (simp add: cmd)
  show ?thesis
    using handle_analyze_pipeline_error [OF a b an] by (simp add: rt0_def)
qed

text \<open>
  A further property: once the coin list has been fetched it is kept, and a later call
  returns it without a request, whatever the provider would answer then.
\<close>

theorem get_coin_list_cached:
  assumes "get_coin_list w s = (Inr coins, s1)"
  shows "coin_list_cache s1 = Some coins \<and> get_coin_list w' s1 = (Inr coins, s1)"
proof -
  have "coin_list_cache s1 = Some coins"
    using assms
    by (auto simp: get_coin_list_def split: option.splits http_result.splits sum.splits)
  then show ?thesis by (simp add: get_coin_list_def)
qed

theorem get_coin_list_cached_witness:
  "get_coin_list world_example st0 =
     (Inr (JArr coins_example),
      \<lparr> coin_list_cache = Some (JArr coins_example), requests_made = [CoinList] \<rparr>)
   \<and> get_coin_list (\<lambda>r. Raised ConnectionError)
        \<lparr> coin_list_cache = Some (JArr coins_example), requests_made = [CoinList] \<rparr> =
     (Inr (JArr coins_example),
      \<lparr> coin_list_cache = Some (JArr coins_example), requests_made = [CoinList] \<rparr>)"
  using get_coin_list_cached [OF get_coin_list_example, of "\<lambda>r. Raised ConnectionError"]
    get_coin_list_example by simp

end
